theory Spec2Isabelle
  imports Complex_Main
begin

section \<open>Conventions\<close>

text \<open>
  The planner has two halves.  The client-side store (\<^verbatim>\<open>useFinancialStore\<close>, written in
  TypeScript on top of zustand) holds the household snapshot and keeps the linked cash-flow
  fields in step with the liability and investment tables.  The calculation formulas are
  given by the Technical Requirements Specification, with Python reference implementations.

  Numbers: a JavaScript \<^verbatim>\<open>number\<close> and a Python \<^verbatim>\<open>float\<close> are idealised as \<^typ>\<open>real\<close>
  (no rounding, no overflow, no NaN); a Python \<^verbatim>\<open>int\<close> is \<^typ>\<open>int\<close>.  An optional property
  \<^verbatim>\<open>p?: T\<close> is a \<^typ>\<open>'a option\<close>, \<open>None\<close> standing for \<^verbatim>\<open>undefined\<close>.  In a
  \<^verbatim>\<open>Partial<T>\<close> argument every key is optional, \<open>None\<close> standing for an absent key.
\<close>

section \<open>The store's data model\<close>

datatype RelationshipType = PRIMARY | SPOUSE | CHILD | FATHER | MOTHER
datatype TargetType = AGE | DATE
datatype InvestmentType = Inv_MF | Inv_Stock | Inv_FD | Inv_RD | Inv_Chit | Inv_Other
datatype LiabilityType = Loan_Home | Loan_Car | Loan_Personal | Loan_Other
datatype AccountType = Acc_Savings | Acc_Current | Acc_FD | Acc_RD
datatype PolicyType = Pol_Term | Pol_Endowment | Pol_ULIP | Pol_Whole_Life | Pol_Health | Pol_Other

text \<open>\<^verbatim>\<open>target_value: string | number\<close>\<close>

datatype TargetValue = TargetString string | TargetNumber real

record FamilyMember =
  fm_id :: string
  fm_name :: string
  fm_dob :: "string option"
  pan :: "string option"
  relation_type :: RelationshipType
  expected_retirement_age :: "real option"

record ContactDetails =
  mobile :: "string option"
  email :: "string option"
  designation :: "string option"
  organisation :: "string option"

record PrimaryUser =
  pu_name :: string
  pu_dob :: string
  retire_age :: real
  pension_till_age :: real
  life_expectancy :: real

record Spouse =
  sp_name :: string
  sp_dob :: string
  working_status :: bool
  sp_retirement_age :: "real option"
  sp_pension_till_age :: "real option"

record UserProfile =
  primary :: PrimaryUser
  spouse :: "Spouse option"
  family_members :: "FamilyMember list"
  contact_details :: "ContactDetails option"
  address :: "string option"

record Goal =
  goal_id :: string
  goal_person_name :: "string option"
  goal_name :: string
  current_cost :: real
  target_type :: TargetType
  target_value :: TargetValue

record RealEstateAsset =
  re_id :: "string option"
  re_person_name :: "string option"
  re_name :: string
  present_value :: real
  roi :: "real option"
  re_remarks :: "string option"

record BankAccount =
  ba_id :: "string option"
  ba_person_name :: "string option"
  bank_name :: string
  account_type :: AccountType
  balance :: real
  ba_interest_rate :: "real option"
  maturity_date :: "string option"
  ba_remarks :: "string option"

record InvestmentAsset =
  inv_id :: "string option"
  inv_type :: InvestmentType
  invested_amount :: "real option"
  current_value :: real
  monthly_sip :: real
  inv_start_date :: "string option"
  inv_end_date :: "string option"
  inv_remarks :: "string option"

record InsurancePolicy =
  pol_id :: "string option"
  pol_person_name :: "string option"
  policy_name :: string
  policy_type :: PolicyType
  sum_assured :: real
  premium :: real
  premium_frequency :: string
  ppt :: "real option"
  pol_start_date :: "string option"
  pol_end_date :: "string option"
  maturity_amount :: "real option"
  pol_remarks :: "string option"

record Assets =
  real_estate :: "RealEstateAsset list"
  bank_accounts :: "BankAccount list"
  investments :: "InvestmentAsset list"
  insurance_policies :: "InsurancePolicy list"
  liquid_cash :: real

record Liability =
  liab_id :: "string option"
  liab_type :: LiabilityType
  total_loan_amount :: "real option"
  outstanding :: real
  emi :: real
  interest_rate :: real
  tenure_months :: real

record EssentialExpenses =
  house_rent :: real
  maintenance :: real
  property_tax :: real
  utilities :: real
  groceries :: real
  transportation :: real
  medical_expenses :: real
  children_school_fees :: real
  insurance_premiums :: real
  ess_other :: real

record LifestyleExpenses =
  maid_expense :: real
  shopping :: real
  travel :: real
  dining_entertainment :: real
  life_other :: real

record InvestmentOutflows =
  mutual_fund_sip :: real
  stock_sip :: real
  recurring_deposit :: real
  chit_fund :: real
  invout_other :: real

record Inflows =
  primary_income :: real
  spouse_income :: real
  rental_income :: real
  additional_income :: real
  in_other :: real

record Outflows =
  essential :: real
  lifestyle :: real
  essential_details :: "EssentialExpenses option"
  lifestyle_details :: "LifestyleExpenses option"
  investment_details :: "InvestmentOutflows option"
  linked_emis :: real
  linked_investments :: real

record CashFlow =
  inflows :: Inflows
  outflows :: Outflows

record Assumptions =
  inflation :: real
  child_inflation :: real
  pre_retire_roi :: real
  post_retire_roi :: real

text \<open>
  The data part of \<^verbatim>\<open>FullState\<close>.  \<^verbatim>\<open>analysisResults: any | null\<close> is an opaque
  document; \<open>None\<close> is \<^verbatim>\<open>null\<close>.
\<close>

record FullState =
  user_profile :: UserProfile
  goals :: "Goal list"
  assets :: Assets
  liabilities :: "Liability list"
  cash_flow :: CashFlow
  assumptions :: Assumptions
  analysisResults :: "string option"

subsection \<open>Partial arguments\<close>

record PartialPrimaryUser =
  p_pu_name :: "string option"
  p_pu_dob :: "string option"
  p_retire_age :: "real option"
  p_pension_till_age :: "real option"
  p_life_expectancy :: "real option"

record PartialGoal =
  p_goal_id :: "string option"
  p_goal_person_name :: "string option option"
  p_goal_name :: "string option"
  p_current_cost :: "real option"
  p_target_type :: "TargetType option"
  p_target_value :: "TargetValue option"

record PartialEssentialExpenses =
  p_house_rent :: "real option"
  p_maintenance :: "real option"
  p_property_tax :: "real option"
  p_utilities :: "real option"
  p_groceries :: "real option"
  p_transportation :: "real option"
  p_medical_expenses :: "real option"
  p_children_school_fees :: "real option"
  p_insurance_premiums :: "real option"
  p_ess_other :: "real option"

record PartialLifestyleExpenses =
  p_maid_expense :: "real option"
  p_shopping :: "real option"
  p_travel :: "real option"
  p_dining_entertainment :: "real option"
  p_life_other :: "real option"

record PartialInflows =
  p_primary_income :: "real option"
  p_spouse_income :: "real option"
  p_rental_income :: "real option"
  p_additional_income :: "real option"
  p_in_other :: "real option"

record PartialOutflows =
  p_essential :: "real option"
  p_lifestyle :: "real option"
  p_essential_details :: "EssentialExpenses option option"
  p_lifestyle_details :: "LifestyleExpenses option option"
  p_investment_details :: "InvestmentOutflows option option"
  p_linked_emis :: "real option"
  p_linked_investments :: "real option"

record PartialCashFlow =
  p_inflows :: "Inflows option"
  p_outflows :: "Outflows option"

record PartialAssumptions =
  p_inflation :: "real option"
  p_child_inflation :: "real option"
  p_pre_retire_roi :: "real option"
  p_post_retire_roi :: "real option"

text \<open>
  What an updater hands to zustand's \<^verbatim>\<open>set\<close>: an object holding some of the top-level
  keys of the state.
\<close>

record StatePatch =
  patch_user_profile :: "UserProfile option"
  patch_goals :: "Goal list option"
  patch_assets :: "Assets option"
  patch_liabilities :: "Liability list option"
  patch_cash_flow :: "CashFlow option"
  patch_assumptions :: "Assumptions option"
  patch_analysisResults :: "string option option"

section \<open>The store\<close>

subsection \<open>Object spread, default-or, and zustand's merge\<close>

text \<open>
  \<^verbatim>\<open>{ ...old, ...partial }\<close>, one key at a time: a key present in the partial object
  replaces the old value.
\<close>

fun ovr :: "'a \<Rightarrow> 'a option \<Rightarrow> 'a" where
  "ovr old None = old"
| "ovr old (Some v) = v"

text \<open>
  \<^verbatim>\<open>x.id || generateId()\<close>: an absent or empty id is falsy and is replaced by the generated
  one.  \<^verbatim>\<open>generateId\<close> draws on \<^verbatim>\<open>Math.random\<close>; the string it returns is a parameter
  of each action that calls it.
\<close>

definition id_or :: "string \<Rightarrow> string \<Rightarrow> string" where
  "id_or i gen = (if i = [] then gen else i)"

definition opt_id_or :: "string option \<Rightarrow> string \<Rightarrow> string" where
  "opt_id_or i gen = (case i of None \<Rightarrow> gen | Some v \<Rightarrow> id_or v gen)"

definition merge_PrimaryUser :: "PrimaryUser \<Rightarrow> PartialPrimaryUser \<Rightarrow> PrimaryUser" where
  "merge_PrimaryUser old p =
     \<lparr> pu_name = ovr (pu_name old) (p_pu_name p),
       pu_dob = ovr (pu_dob old) (p_pu_dob p),
       retire_age = ovr (retire_age old) (p_retire_age p),
       pension_till_age = ovr (pension_till_age old) (p_pension_till_age p),
       life_expectancy = ovr (life_expectancy old) (p_life_expectancy p) \<rparr>"

definition merge_Goal :: "Goal \<Rightarrow> PartialGoal \<Rightarrow> Goal" where
  "merge_Goal old p =
     \<lparr> goal_id = ovr (goal_id old) (p_goal_id p),
       goal_person_name = ovr (goal_person_name old) (p_goal_person_name p),
       goal_name = ovr (goal_name old) (p_goal_name p),
       current_cost = ovr (current_cost old) (p_current_cost p),
       target_type = ovr (target_type old) (p_target_type p),
       target_value = ovr (target_value old) (p_target_value p) \<rparr>"

definition merge_EssentialExpenses ::
  "EssentialExpenses \<Rightarrow> PartialEssentialExpenses \<Rightarrow> EssentialExpenses" where
  "merge_EssentialExpenses old p =
     \<lparr> house_rent = ovr (house_rent old) (p_house_rent p),
       maintenance = ovr (maintenance old) (p_maintenance p),
       property_tax = ovr (property_tax old) (p_property_tax p),
       utilities = ovr (utilities old) (p_utilities p),
       groceries = ovr (groceries old) (p_groceries p),
       transportation = ovr (transportation old) (p_transportation p),
       medical_expenses = ovr (medical_expenses old) (p_medical_expenses p),
       children_school_fees = ovr (children_school_fees old) (p_children_school_fees p),
       insurance_premiums = ovr (insurance_premiums old) (p_insurance_premiums p),
       ess_other = ovr (ess_other old) (p_ess_other p) \<rparr>"

definition merge_LifestyleExpenses ::
  "LifestyleExpenses \<Rightarrow> PartialLifestyleExpenses \<Rightarrow> LifestyleExpenses" where
  "merge_LifestyleExpenses old p =
     \<lparr> maid_expense = ovr (maid_expense old) (p_maid_expense p),
       shopping = ovr (shopping old) (p_shopping p),
       travel = ovr (travel old) (p_travel p),
       dining_entertainment = ovr (dining_entertainment old) (p_dining_entertainment p),
       life_other = ovr (life_other old) (p_life_other p) \<rparr>"

definition merge_Inflows :: "Inflows \<Rightarrow> PartialInflows \<Rightarrow> Inflows" where
  "merge_Inflows old p =
     \<lparr> primary_income = ovr (primary_income old) (p_primary_income p),
       spouse_income = ovr (spouse_income old) (p_spouse_income p),
       rental_income = ovr (rental_income old) (p_rental_income p),
       additional_income = ovr (additional_income old) (p_additional_income p),
       in_other = ovr (in_other old) (p_in_other p) \<rparr>"

definition merge_Outflows :: "Outflows \<Rightarrow> PartialOutflows \<Rightarrow> Outflows" where
  "merge_Outflows old p =
     \<lparr> essential = ovr (essential old) (p_essential p),
       lifestyle = ovr (lifestyle old) (p_lifestyle p),
       essential_details = ovr (essential_details old) (p_essential_details p),
       lifestyle_details = ovr (lifestyle_details old) (p_lifestyle_details p),
       investment_details = ovr (investment_details old) (p_investment_details p),
       linked_emis = ovr (linked_emis old) (p_linked_emis p),
       linked_investments = ovr (linked_investments old) (p_linked_investments p) \<rparr>"

definition merge_CashFlow :: "CashFlow \<Rightarrow> PartialCashFlow \<Rightarrow> CashFlow" where
  "merge_CashFlow old p =
     \<lparr> inflows = ovr (inflows old) (p_inflows p),
       outflows = ovr (outflows old) (p_outflows p) \<rparr>"

definition merge_Assumptions :: "Assumptions \<Rightarrow> PartialAssumptions \<Rightarrow> Assumptions" where
  "merge_Assumptions old p =
     \<lparr> inflation = ovr (inflation old) (p_inflation p),
       child_inflation = ovr (child_inflation old) (p_child_inflation p),
       pre_retire_roi = ovr (pre_retire_roi old) (p_pre_retire_roi p),
       post_retire_roi = ovr (post_retire_roi old) (p_post_retire_roi p) \<rparr>"

definition no_patch :: StatePatch where
  "no_patch =
     \<lparr> patch_user_profile = None, patch_goals = None, patch_assets = None,
       patch_liabilities = None, patch_cash_flow = None, patch_assumptions = None,
       patch_analysisResults = None \<rparr>"

text \<open>zustand's \<^verbatim>\<open>set(partial)\<close>: a shallow merge of the top-level keys.\<close>

definition merge_state :: "FullState \<Rightarrow> StatePatch \<Rightarrow> FullState" where
  "merge_state s p =
     \<lparr> user_profile = ovr (user_profile s) (patch_user_profile p),
       goals = ovr (goals s) (patch_goals p),
       assets = ovr (assets s) (patch_assets p),
       liabilities = ovr (liabilities s) (patch_liabilities p),
       cash_flow = ovr (cash_flow s) (patch_cash_flow p),
       assumptions = ovr (assumptions s) (patch_assumptions p),
       analysisResults = ovr (analysisResults s) (patch_analysisResults p) \<rparr>"

text \<open>\<^verbatim>\<open>set((state) => partial)\<close>: the updater reads the current state.\<close>

definition set_state :: "(FullState \<Rightarrow> StatePatch) \<Rightarrow> FullState \<Rightarrow> FullState" where
  "set_state f s = merge_state s (f s)"

subsection \<open>Initial state\<close>

definition initialState :: FullState where
  "initialState =
     \<lparr> user_profile =
         \<lparr> primary = \<lparr> pu_name = [], pu_dob = [], retire_age = 60, pension_till_age = 85,
                       life_expectancy = 85 \<rparr>,
           spouse = None, family_members = [], contact_details = None, address = None \<rparr>,
       goals = [],
       assets = \<lparr> real_estate = [], bank_accounts = [], investments = [],
                  insurance_policies = [], liquid_cash = 0 \<rparr>,
       liabilities = [],
       cash_flow =
         \<lparr> inflows = \<lparr> primary_income = 0, spouse_income = 0, rental_income = 0,
                       additional_income = 0, in_other = 0 \<rparr>,
           outflows = \<lparr> essential = 0, lifestyle = 0, essential_details = None,
                        lifestyle_details = None, investment_details = None,
                        linked_emis = 0, linked_investments = 0 \<rparr> \<rparr>,
       assumptions = \<lparr> inflation = 6 / 100, child_inflation = 10 / 100,
                       pre_retire_roi = 12 / 100, post_retire_roi = 8 / 100 \<rparr>,
       analysisResults = None \<rparr>"

text \<open>
  \<^verbatim>\<open>reset: () => set(initialState)\<close> merges an object that holds every data key.
\<close>

definition initialState_patch :: StatePatch where
  "initialState_patch =
     \<lparr> patch_user_profile = Some (user_profile initialState),
       patch_goals = Some (goals initialState),
       patch_assets = Some (assets initialState),
       patch_liabilities = Some (liabilities initialState),
       patch_cash_flow = Some (cash_flow initialState),
       patch_assumptions = Some (assumptions initialState),
       patch_analysisResults = Some (analysisResults initialState) \<rparr>"

subsection \<open>Profile, goal and asset actions\<close>

definition setProfile :: "UserProfile \<Rightarrow> FullState \<Rightarrow> FullState" where
  "setProfile profile s = merge_state s (no_patch\<lparr>patch_user_profile := Some profile\<rparr>)"

definition updatePrimaryUser :: "PartialPrimaryUser \<Rightarrow> FullState \<Rightarrow> FullState" where
  "updatePrimaryUser p =
     set_state (\<lambda>state. no_patch\<lparr>patch_user_profile :=
       Some ((user_profile state)\<lparr>primary := merge_PrimaryUser (primary (user_profile state)) p\<rparr>)\<rparr>)"

definition setSpouse :: "Spouse option \<Rightarrow> FullState \<Rightarrow> FullState" where
  "setSpouse sp =
     set_state (\<lambda>state. no_patch\<lparr>patch_user_profile := Some ((user_profile state)\<lparr>spouse := sp\<rparr>)\<rparr>)"

definition addFamilyMember :: "string \<Rightarrow> FamilyMember \<Rightarrow> FullState \<Rightarrow> FullState" where
  "addFamilyMember gen member =
     set_state (\<lambda>state. no_patch\<lparr>patch_user_profile :=
       Some ((user_profile state)\<lparr>family_members :=
         family_members (user_profile state) @ [member\<lparr>fm_id := id_or (fm_id member) gen\<rparr>]\<rparr>)\<rparr>)"

definition removeFamilyMember :: "string \<Rightarrow> FullState \<Rightarrow> FullState" where
  "removeFamilyMember i =
     set_state (\<lambda>state. no_patch\<lparr>patch_user_profile :=
       Some ((user_profile state)\<lparr>family_members :=
         filter (\<lambda>m. fm_id m \<noteq> i) (family_members (user_profile state))\<rparr>)\<rparr>)"

definition addGoal :: "string \<Rightarrow> Goal \<Rightarrow> FullState \<Rightarrow> FullState" where
  "addGoal gen goal =
     set_state (\<lambda>state. no_patch\<lparr>patch_goals :=
       Some (goals state @ [goal\<lparr>goal_id := id_or (goal_id goal) gen\<rparr>])\<rparr>)"

definition updateGoal :: "string \<Rightarrow> PartialGoal \<Rightarrow> FullState \<Rightarrow> FullState" where
  "updateGoal i updates =
     set_state (\<lambda>state. no_patch\<lparr>patch_goals :=
       Some (map (\<lambda>g. if goal_id g = i then merge_Goal g updates else g) (goals state))\<rparr>)"

definition removeGoal :: "string \<Rightarrow> FullState \<Rightarrow> FullState" where
  "removeGoal i =
     set_state (\<lambda>state. no_patch\<lparr>patch_goals := Some (filter (\<lambda>g. goal_id g \<noteq> i) (goals state))\<rparr>)"

definition addRealEstate :: "string \<Rightarrow> RealEstateAsset \<Rightarrow> FullState \<Rightarrow> FullState" where
  "addRealEstate gen asset =
     set_state (\<lambda>state. no_patch\<lparr>patch_assets :=
       Some ((assets state)\<lparr>real_estate :=
         real_estate (assets state) @ [asset\<lparr>re_id := Some (opt_id_or (re_id asset) gen)\<rparr>]\<rparr>)\<rparr>)"

definition removeRealEstate :: "string \<Rightarrow> FullState \<Rightarrow> FullState" where
  "removeRealEstate i =
     set_state (\<lambda>state. no_patch\<lparr>patch_assets :=
       Some ((assets state)\<lparr>real_estate :=
         filter (\<lambda>a. re_id a \<noteq> Some i) (real_estate (assets state))\<rparr>)\<rparr>)"

definition addBankAccount :: "string \<Rightarrow> BankAccount \<Rightarrow> FullState \<Rightarrow> FullState" where
  "addBankAccount gen account =
     set_state (\<lambda>state. no_patch\<lparr>patch_assets :=
       Some ((assets state)\<lparr>bank_accounts :=
         bank_accounts (assets state) @ [account\<lparr>ba_id := Some (opt_id_or (ba_id account) gen)\<rparr>]\<rparr>)\<rparr>)"

definition removeBankAccount :: "string \<Rightarrow> FullState \<Rightarrow> FullState" where
  "removeBankAccount i =
     set_state (\<lambda>state. no_patch\<lparr>patch_assets :=
       Some ((assets state)\<lparr>bank_accounts :=
         filter (\<lambda>a. ba_id a \<noteq> Some i) (bank_accounts (assets state))\<rparr>)\<rparr>)"

definition addInsurancePolicy :: "string \<Rightarrow> InsurancePolicy \<Rightarrow> FullState \<Rightarrow> FullState" where
  "addInsurancePolicy gen policy =
     set_state (\<lambda>state. no_patch\<lparr>patch_assets :=
       Some ((assets state)\<lparr>insurance_policies :=
         insurance_policies (assets state) @ [policy\<lparr>pol_id := Some (opt_id_or (pol_id policy) gen)\<rparr>]\<rparr>)\<rparr>)"

definition removeInsurancePolicy :: "string \<Rightarrow> FullState \<Rightarrow> FullState" where
  "removeInsurancePolicy i =
     set_state (\<lambda>state. no_patch\<lparr>patch_assets :=
       Some ((assets state)\<lparr>insurance_policies :=
         filter (\<lambda>p. pol_id p \<noteq> Some i) (insurance_policies (assets state))\<rparr>)\<rparr>)"

definition updateLiquidCash :: "real \<Rightarrow> FullState \<Rightarrow> FullState" where
  "updateLiquidCash amount =
     set_state (\<lambda>state. no_patch\<lparr>patch_assets := Some ((assets state)\<lparr>liquid_cash := amount\<rparr>)\<rparr>)"

subsection \<open>The interconnection map\<close>

text \<open>
  \<^verbatim>\<open>recalculateLinkedValues\<close>: both totals are left folds from 0
  (\<^verbatim>\<open>reduce((sum, l) => sum + l.emi, 0)\<close>), written over the outflows of the current state.
\<close>

definition recalculateLinkedValues :: "FullState \<Rightarrow> FullState" where
  "recalculateLinkedValues =
     set_state (\<lambda>state.
       let totalEmi = foldl (\<lambda>sum l. sum + emi l) 0 (liabilities state);
           totalSip = foldl (\<lambda>sum i. sum + monthly_sip i) 0 (investments (assets state))
       in no_patch\<lparr>patch_cash_flow :=
            Some ((cash_flow state)\<lparr>outflows :=
              (outflows (cash_flow state))\<lparr>linked_emis := totalEmi,
                                           linked_investments := totalSip\<rparr>\<rparr>)\<rparr>)"

subsection \<open>Investment and liability actions\<close>

text \<open>Each of the four writes its table and then calls \<^verbatim>\<open>get().recalculateLinkedValues()\<close>.\<close>

definition addInvestment :: "string \<Rightarrow> InvestmentAsset \<Rightarrow> FullState \<Rightarrow> FullState" where
  "addInvestment gen investment s =
     recalculateLinkedValues
       (set_state (\<lambda>state. no_patch\<lparr>patch_assets :=
          Some ((assets state)\<lparr>investments :=
            investments (assets state)
              @ [investment\<lparr>inv_id := Some (opt_id_or (inv_id investment) gen)\<rparr>]\<rparr>)\<rparr>) s)"

definition removeInvestment :: "string \<Rightarrow> FullState \<Rightarrow> FullState" where
  "removeInvestment i s =
     recalculateLinkedValues
       (set_state (\<lambda>state. no_patch\<lparr>patch_assets :=
          Some ((assets state)\<lparr>investments :=
            filter (\<lambda>a. inv_id a \<noteq> Some i) (investments (assets state))\<rparr>)\<rparr>) s)"

definition addLiability :: "string \<Rightarrow> Liability \<Rightarrow> FullState \<Rightarrow> FullState" where
  "addLiability gen liability s =
     recalculateLinkedValues
       (set_state (\<lambda>state. no_patch\<lparr>patch_liabilities :=
          Some (liabilities state
                  @ [liability\<lparr>liab_id := Some (opt_id_or (liab_id liability) gen)\<rparr>])\<rparr>) s)"

definition removeLiability :: "string \<Rightarrow> FullState \<Rightarrow> FullState" where
  "removeLiability i s =
     recalculateLinkedValues
       (set_state (\<lambda>state. no_patch\<lparr>patch_liabilities :=
          Some (filter (\<lambda>l. liab_id l \<noteq> Some i) (liabilities state))\<rparr>) s)"

subsection \<open>Cash-flow and assumption actions\<close>

definition updateCashFlow :: "PartialCashFlow \<Rightarrow> FullState \<Rightarrow> FullState" where
  "updateCashFlow newCashFlow =
     set_state (\<lambda>state. no_patch\<lparr>patch_cash_flow :=
       Some (merge_CashFlow (cash_flow state) newCashFlow)\<rparr>)"

definition updateInflows :: "PartialInflows \<Rightarrow> FullState \<Rightarrow> FullState" where
  "updateInflows p =
     set_state (\<lambda>state. no_patch\<lparr>patch_cash_flow :=
       Some ((cash_flow state)\<lparr>inflows := merge_Inflows (inflows (cash_flow state)) p\<rparr>)\<rparr>)"

definition updateOutflows :: "PartialOutflows \<Rightarrow> FullState \<Rightarrow> FullState" where
  "updateOutflows p =
     set_state (\<lambda>state. no_patch\<lparr>patch_cash_flow :=
       Some ((cash_flow state)\<lparr>outflows := merge_Outflows (outflows (cash_flow state)) p\<rparr>)\<rparr>)"

definition zero_EssentialExpenses :: EssentialExpenses where
  "zero_EssentialExpenses =
     \<lparr> house_rent = 0, maintenance = 0, property_tax = 0, utilities = 0, groceries = 0,
       transportation = 0, medical_expenses = 0, children_school_fees = 0,
       insurance_premiums = 0, ess_other = 0 \<rparr>"

definition zero_LifestyleExpenses :: LifestyleExpenses where
  "zero_LifestyleExpenses =
     \<lparr> maid_expense = 0, shopping = 0, travel = 0, dining_entertainment = 0, life_other = 0 \<rparr>"

text \<open>\<^verbatim>\<open>Object.values\<close> of a details object, in the order of its keys.\<close>

definition values_EssentialExpenses :: "EssentialExpenses \<Rightarrow> real list" where
  "values_EssentialExpenses d =
     [house_rent d, maintenance d, property_tax d, utilities d, groceries d, transportation d,
      medical_expenses d, children_school_fees d, insurance_premiums d, ess_other d]"

definition values_LifestyleExpenses :: "LifestyleExpenses \<Rightarrow> real list" where
  "values_LifestyleExpenses d =
     [maid_expense d, shopping d, travel d, dining_entertainment d, life_other d]"

text \<open>
  \<^verbatim>\<open>state.cash_flow.outflows.essential_details || { ... zeros ... }\<close>: an object is truthy,
  so the default is taken exactly when no details are stored.
\<close>

definition updateEssentialDetails :: "PartialEssentialExpenses \<Rightarrow> FullState \<Rightarrow> FullState" where
  "updateEssentialDetails details =
     set_state (\<lambda>state.
       let currentDetails =
             (case essential_details (outflows (cash_flow state)) of
                Some d \<Rightarrow> d | None \<Rightarrow> zero_EssentialExpenses);
           newDetails = merge_EssentialExpenses currentDetails details;
           essential' = foldl (\<lambda>a b. a + b) 0 (values_EssentialExpenses newDetails)
       in no_patch\<lparr>patch_cash_flow :=
            Some ((cash_flow state)\<lparr>outflows :=
              (outflows (cash_flow state))\<lparr>essential := essential',
                                           essential_details := Some newDetails\<rparr>\<rparr>)\<rparr>)"

definition updateLifestyleDetails :: "PartialLifestyleExpenses \<Rightarrow> FullState \<Rightarrow> FullState" where
  "updateLifestyleDetails details =
     set_state (\<lambda>state.
       let currentDetails =
             (case lifestyle_details (outflows (cash_flow state)) of
                Some d \<Rightarrow> d | None \<Rightarrow> zero_LifestyleExpenses);
           newDetails = merge_LifestyleExpenses currentDetails details;
           lifestyle' = foldl (\<lambda>a b. a + b) 0 (values_LifestyleExpenses newDetails)
       in no_patch\<lparr>patch_cash_flow :=
            Some ((cash_flow state)\<lparr>outflows :=
              (outflows (cash_flow state))\<lparr>lifestyle := lifestyle',
                                           lifestyle_details := Some newDetails\<rparr>\<rparr>)\<rparr>)"

definition updateAssumptions :: "PartialAssumptions \<Rightarrow> FullState \<Rightarrow> FullState" where
  "updateAssumptions p =
     set_state (\<lambda>state. no_patch\<lparr>patch_assumptions := Some (merge_Assumptions (assumptions state) p)\<rparr>)"

subsection \<open>Utility actions\<close>

definition reset :: "FullState \<Rightarrow> FullState" where
  "reset s = merge_state s initialState_patch"

definition setAnalysisResults :: "string option \<Rightarrow> FullState \<Rightarrow> FullState" where
  "setAnalysisResults results s = merge_state s (no_patch\<lparr>patch_analysisResults := Some results\<rparr>)"

text \<open>\<^verbatim>\<open>getPayload\<close> reads the six data sections and leaves the state alone.\<close>

definition getPayload ::
  "FullState \<Rightarrow> UserProfile \<times> Goal list \<times> Assets \<times> Liability list \<times> CashFlow \<times> Assumptions" where
  "getPayload state =
     (user_profile state, goals state, assets state, liabilities state, cash_flow state,
      assumptions state)"

subsection \<open>The public actions as one transition function\<close>

datatype Action =
    SetProfile UserProfile
  | UpdatePrimaryUser PartialPrimaryUser
  | SetSpouse "Spouse option"
  | AddFamilyMember string FamilyMember
  | RemoveFamilyMember string
  | AddGoal string Goal
  | UpdateGoal string PartialGoal
  | RemoveGoal string
  | AddRealEstate string RealEstateAsset
  | RemoveRealEstate string
  | AddBankAccount string BankAccount
  | RemoveBankAccount string
  | AddInvestment string InvestmentAsset
  | RemoveInvestment string
  | AddInsurancePolicy string InsurancePolicy
  | RemoveInsurancePolicy string
  | UpdateLiquidCash real
  | AddLiability string Liability
  | RemoveLiability string
  | UpdateCashFlow PartialCashFlow
  | UpdateInflows PartialInflows
  | UpdateOutflows PartialOutflows
  | UpdateEssentialDetails PartialEssentialExpenses
  | UpdateLifestyleDetails PartialLifestyleExpenses
  | UpdateAssumptions PartialAssumptions
  | RecalculateLinkedValues
  | Reset
  | SetAnalysisResults "string option"

fun step :: "Action \<Rightarrow> FullState \<Rightarrow> FullState" where
  "step (SetProfile p) s = setProfile p s"
| "step (UpdatePrimaryUser p) s = updatePrimaryUser p s"
| "step (SetSpouse sp) s = setSpouse sp s"
| "step (AddFamilyMember gen m) s = addFamilyMember gen m s"
| "step (RemoveFamilyMember i) s = removeFamilyMember i s"
| "step (AddGoal gen g) s = addGoal gen g s"
| "step (UpdateGoal i u) s = updateGoal i u s"
| "step (RemoveGoal i) s = removeGoal i s"
| "step (AddRealEstate gen a) s = addRealEstate gen a s"
| "step (RemoveRealEstate i) s = removeRealEstate i s"
| "step (AddBankAccount gen a) s = addBankAccount gen a s"
| "step (RemoveBankAccount i) s = removeBankAccount i s"
| "step (AddInvestment gen a) s = addInvestment gen a s"
| "step (RemoveInvestment i) s = removeInvestment i s"
| "step (AddInsurancePolicy gen p) s = addInsurancePolicy gen p s"
| "step (RemoveInsurancePolicy i) s = removeInsurancePolicy i s"
| "step (UpdateLiquidCash amount) s = updateLiquidCash amount s"
| "step (AddLiability gen l) s = addLiability gen l s"
| "step (RemoveLiability i) s = removeLiability i s"
| "step (UpdateCashFlow p) s = updateCashFlow p s"
| "step (UpdateInflows p) s = updateInflows p s"
| "step (UpdateOutflows p) s = updateOutflows p s"
| "step (UpdateEssentialDetails p) s = updateEssentialDetails p s"
| "step (UpdateLifestyleDetails p) s = updateLifestyleDetails p s"
| "step (UpdateAssumptions p) s = updateAssumptions p s"
| "step RecalculateLinkedValues s = recalculateLinkedValues s"
| "step Reset s = reset s"
| "step (SetAnalysisResults r) s = setAnalysisResults r s"

text \<open>Running a sequence of actions from a state, first action first.\<close>

fun run :: "Action list \<Rightarrow> FullState \<Rightarrow> FullState" where
  "run [] s = s"
| "run (a # as) s = run as (step a s)"

section \<open>The calculation formulas\<close>

subsection \<open>Python arithmetic that can fail\<close>

text \<open>
  Two ways in which a Python float expression does not yield a float: division by zero and
  a zero base under a negative exponent raise \<^verbatim>\<open>ZeroDivisionError\<close>; a negative base under
  a fractional exponent yields a complex number.
\<close>

datatype py_fault = ZeroDivisionError | ComplexValue

definition py_div :: "real \<Rightarrow> real \<Rightarrow> py_fault + real" where
  "py_div x y = (if y = 0 then Inl ZeroDivisionError else Inr (x / y))"

text \<open>
  \<^verbatim>\<open>x ** y\<close> on floats (an int exponent is converted first): anything to the power 0 is 1;
  a zero base is 0 under a positive exponent and an error under a negative one; an exponent
  that is a whole number is repeated multiplication or its reciprocal; otherwise the base
  must be positive.
\<close>

definition py_pow :: "real \<Rightarrow> real \<Rightarrow> py_fault + real" where
  "py_pow x y =
     (if y = 0 then Inr 1
      else if x = 0 then (if y < 0 then Inl ZeroDivisionError else Inr 0)
      else if of_int \<lfloor>y\<rfloor> = y then Inr (x powi \<lfloor>y\<rfloor>)
      else if x < 0 then Inl ComplexValue
      else Inr (x powr y))"

subsection \<open>Time\<close>

text \<open>
  A calendar date is its day number (days since a fixed epoch), so that the \<^verbatim>\<open>.days\<close> of a
  difference of two dates is the difference of the day numbers.  \<^verbatim>\<open>date.today()\<close> is the
  parameter \<open>today\<close>.
\<close>

type_synonym date = int

definition calculate_age :: "date \<Rightarrow> date \<Rightarrow> real" where
  "calculate_age today dob = (let days_lived = today - dob in of_int days_lived / 365.25)"

text \<open>Years to goal, date-based: \<^verbatim>\<open>(TargetDate - TODAY) / 365.25\<close>.\<close>

definition years_to_goal_date :: "date \<Rightarrow> date \<Rightarrow> real" where
  "years_to_goal_date today target_date = of_int (target_date - today) / 365.25"

text \<open>Logical validation 6: for goals with DATE, \<^verbatim>\<open>TargetDate > TODAY\<close>.\<close>

definition goal_date_valid :: "date \<Rightarrow> date \<Rightarrow> bool" where
  "goal_date_valid today target_date = (target_date > today)"

text \<open>
  The family-details form computes the age it hands on with the chat data.  \<open>date_ms\<close>
  stands for \<^verbatim>\<open>new Date(dob).getTime()\<close> and \<open>now_ms\<close> for \<^verbatim>\<open>new Date().getTime()\<close>, both
  in milliseconds; an empty \<^verbatim>\<open>dob\<close> is falsy and gives \<^verbatim>\<open>null\<close>.
\<close>

definition calculateAge :: "(string \<Rightarrow> real) \<Rightarrow> real \<Rightarrow> string \<Rightarrow> int option" where
  "calculateAge date_ms now_ms dob =
     (if dob = [] then None
      else Some \<lfloor>(now_ms - date_ms dob) / (365.25 * 24 * 60 * 60 * 1000)\<rfloor>)"

subsection \<open>Future value, corpus and SIP\<close>

definition calculate_future_cost :: "real \<Rightarrow> real \<Rightarrow> real \<Rightarrow> py_fault + real" where
  "calculate_future_cost cost inflation_rate years =
     (case py_pow (1 + inflation_rate) years of
        Inl e \<Rightarrow> Inl e
      | Inr p \<Rightarrow> Inr (cost * p))"

text \<open>Step 1 of the corpus calculation: \<^verbatim>\<open>RealRate = ((1 + PostRetirementROI) / (1 + Inflation)) - 1\<close>.\<close>

definition real_rate :: "real \<Rightarrow> real \<Rightarrow> py_fault + real" where
  "real_rate post_roi infl =
     (case py_div (1 + post_roi) (1 + infl) of
        Inl e \<Rightarrow> Inl e
      | Inr q \<Rightarrow> Inr (q - 1))"

definition calculate_corpus_required :: "real \<Rightarrow> int \<Rightarrow> real \<Rightarrow> py_fault + real" where
  "calculate_corpus_required monthly_expense pension_months rate =
     (if rate = 0 then Inr (monthly_expense * of_int pension_months)
      else
        (case py_pow (1 + rate) (of_int (- pension_months)) of
           Inl e \<Rightarrow> Inl e
         | Inr p \<Rightarrow>
             (case py_div (1 - p) rate of
                Inl e \<Rightarrow> Inl e
              | Inr q \<Rightarrow> Inr (monthly_expense * q))))"

definition calculate_money_to_retire_now :: "real \<Rightarrow> int \<Rightarrow> real \<Rightarrow> py_fault + real" where
  "calculate_money_to_retire_now corpus_required months_to_retire annual_roi =
     (let monthly_rate = annual_roi / 12 in
      if months_to_retire > 0 then
        (case py_pow (1 + monthly_rate) (of_int months_to_retire) of
           Inl e \<Rightarrow> Inl e
         | Inr p \<Rightarrow> py_div corpus_required p)
      else Inr corpus_required)"

definition calculate_extra_sip_required :: "real \<Rightarrow> int \<Rightarrow> real \<Rightarrow> py_fault + real" where
  "calculate_extra_sip_required retirement_gap months_to_retire annual_roi =
     (if retirement_gap \<le> 0 \<or> months_to_retire \<le> 0 then Inr 0
      else
        (let monthly_rate = annual_roi / 12 in
         if monthly_rate > 0 then
           (case py_pow (1 + monthly_rate) (of_int months_to_retire) of
              Inl e \<Rightarrow> Inl e
            | Inr p \<Rightarrow> py_div (retirement_gap * monthly_rate) ((p - 1) * (1 + monthly_rate)))
         else py_div retirement_gap (of_int months_to_retire)))"

subsection \<open>Cash flow and the dashboard ratios\<close>

text \<open>
  The monthly cash-flow sheet the ratios are computed from: the five inflow sources, the
  itemised essential, lifestyle and investment outflows, and the liabilities table.
\<close>

record CashFlowSheet =
  sheet_inflows :: Inflows
  sheet_essential :: EssentialExpenses
  sheet_lifestyle :: LifestyleExpenses
  sheet_investments :: InvestmentOutflows
  sheet_liabilities :: "Liability list"

definition TotalInflow :: "CashFlowSheet \<Rightarrow> real" where
  "TotalInflow c =
     (let i = sheet_inflows c in
      primary_income i + spouse_income i + rental_income i + additional_income i + in_other i)"

definition TotalEssential :: "CashFlowSheet \<Rightarrow> real" where
  "TotalEssential c =
     (let e = sheet_essential c in
      house_rent e + maintenance e + property_tax e + utilities e + groceries e
        + transportation e + medical_expenses e + children_school_fees e
        + insurance_premiums e + ess_other e)"

definition TotalLifestyle :: "CashFlowSheet \<Rightarrow> real" where
  "TotalLifestyle c =
     (let l = sheet_lifestyle c in
      maid_expense l + shopping l + travel l + dining_entertainment l + life_other l)"

definition TotalInvestments :: "CashFlowSheet \<Rightarrow> real" where
  "TotalInvestments c =
     (let v = sheet_investments c in
      mutual_fund_sip v + stock_sip v + recurring_deposit v + chit_fund v + invout_other v)"

definition TotalEMIs :: "CashFlowSheet \<Rightarrow> real" where
  "TotalEMIs c = sum_list (map emi (sheet_liabilities c))"

definition TotalOutflows :: "CashFlowSheet \<Rightarrow> real" where
  "TotalOutflows c = TotalEssential c + TotalLifestyle c + TotalEMIs c + TotalInvestments c"

definition Leftover :: "CashFlowSheet \<Rightarrow> real" where
  "Leftover c = TotalInflow c - TotalOutflows c"

definition SavingsRate :: "CashFlowSheet \<Rightarrow> real" where
  "SavingsRate c = (Leftover c / TotalInflow c) * 100"

definition EMIBurden :: "CashFlowSheet \<Rightarrow> real" where
  "EMIBurden c = (TotalEMIs c / TotalInflow c) * 100"

definition InvestmentRate :: "CashFlowSheet \<Rightarrow> real" where
  "InvestmentRate c = (TotalInvestments c / TotalInflow c) * 100"

definition EssentialExpensePct :: "CashFlowSheet \<Rightarrow> real" where
  "EssentialExpensePct c = (TotalEssential c / TotalInflow c) * 100"

definition LifestyleExpensePct :: "CashFlowSheet \<Rightarrow> real" where
  "LifestyleExpensePct c = (TotalLifestyle c / TotalInflow c) * 100"

section \<open>Properties of the store\<close>

text \<open>The two linkage equalities.\<close>

definition links_in_sync :: "FullState \<Rightarrow> bool" where
  "links_in_sync s =
     (linked_emis (outflows (cash_flow s)) = sum_list (map emi (liabilities s))
      \<and> linked_investments (outflows (cash_flow s))
          = sum_list (map monthly_sip (investments (assets s))))"

text \<open>
  The actions whose argument itself carries a value for a linked field: \<^verbatim>\<open>updateOutflows\<close>
  with a \<^verbatim>\<open>linked_emis\<close> or \<^verbatim>\<open>linked_investments\<close> key, and \<^verbatim>\<open>updateCashFlow\<close> with an
  \<^verbatim>\<open>outflows\<close> key.
\<close>

fun writes_links :: "Action \<Rightarrow> bool" where
  "writes_links (UpdateOutflows p) = (p_linked_emis p \<noteq> None \<or> p_linked_investments p \<noteq> None)"
| "writes_links (UpdateCashFlow p) = (p_outflows p \<noteq> None)"
| "writes_links _ = False"


subsection \<open>Sample data\<close>

definition no_outflows :: PartialOutflows where
  "no_outflows =
     \<lparr> p_essential = None, p_lifestyle = None, p_essential_details = None,
       p_lifestyle_details = None, p_investment_details = None, p_linked_emis = None,
       p_linked_investments = None \<rparr>"

definition home_loan :: Liability where
  "home_loan =
     \<lparr> liab_id = None, liab_type = Loan_Home, total_loan_amount = Some 5000000,
       outstanding = 3500000, emi = 35000, interest_rate = 85 / 1000, tenure_months = 180 \<rparr>"

definition car_loan :: Liability where
  "car_loan =
     \<lparr> liab_id = Some ''car'', liab_type = Loan_Car, total_loan_amount = None,
       outstanding = 600000, emi = 18000, interest_rate = 95 / 1000, tenure_months = 48 \<rparr>"

definition fund_sip :: InvestmentAsset where
  "fund_sip =
     \<lparr> inv_id = None, inv_type = Inv_MF, invested_amount = None, current_value = 800000,
       monthly_sip = 25000, inv_start_date = None, inv_end_date = None, inv_remarks = None \<rparr>"

definition sample_actions :: "Action list" where
  "sample_actions =
     [AddLiability ''g1'' home_loan,
      AddLiability ''g2'' car_loan,
      AddInvestment ''g3'' fund_sip,
      UpdateOutflows (no_outflows\<lparr>p_essential := Some 60000\<rparr>),
      RemoveLiability ''g1'']"

text \<open>A household that spends more than it earns: the leftover is negative.\<close>

definition overspent_sheet :: CashFlowSheet where
  "overspent_sheet =
     \<lparr> sheet_inflows =
         \<lparr> primary_income = 90000, spouse_income = 0, rental_income = 10000,
           additional_income = 0, in_other = 0 \<rparr>,
       sheet_essential =
         \<lparr> house_rent = 30000, maintenance = 2000, property_tax = 0, utilities = 5000,
           groceries = 12000, transportation = 4000, medical_expenses = 2000,
           children_school_fees = 5000, insurance_premiums = 0, ess_other = 0 \<rparr>,
       sheet_lifestyle =
         \<lparr> maid_expense = 3000, shopping = 10000, travel = 7000, dining_entertainment = 8000,
           life_other = 2000 \<rparr>,
       sheet_investments =
         \<lparr> mutual_fund_sip = 10000, stock_sip = 0, recurring_deposit = 0, chit_fund = 0,
           invout_other = 0 \<rparr>,
       sheet_liabilities = [home_loan] \<rparr>"

section \<open>Proofs: the store\<close>

lemma foldl_add_sum_list: "foldl (\<lambda>acc x. acc + f x) a xs = a + sum_list (map f xs)"
  for a :: real
  by (induction xs arbitrary: a) (simp_all add: add.assoc)

lemmas store_defs = set_state_def merge_state_def no_patch_def

lemma recalc_links: "links_in_sync (recalculateLinkedValues s)"
  by (simp add: links_in_sync_def recalculateLinkedValues_def store_defs Let_def
      foldl_add_sum_list)

lemma initial_links: "links_in_sync initialState"
  by (simp add: links_in_sync_def initialState_def)

text \<open>
  One action at a time: the four table actions and the re-sync end in a recalculation, the
  reset restores empty tables and zero totals, and every other action that does not carry
  a linked value leaves the tables and the two linked fields as they were.
\<close>

lemma step_keeps_links:
  assumes "\<not> writes_links a" and "links_in_sync s"
  shows "links_in_sync (step a s)"
proof (cases a)
  case (AddInvestment g i)
  then show ?thesis by (simp add: addInvestment_def recalc_links)
next
  case (RemoveInvestment i)
  then show ?thesis by (simp add: removeInvestment_def recalc_links)
next
  case (AddLiability g l)
  then show ?thesis by (simp add: addLiability_def recalc_links)
next
  case (RemoveLiability i)
  then show ?thesis by (simp add: removeLiability_def recalc_links)
next
  case RecalculateLinkedValues
  then show ?thesis by (simp add: recalc_links)
next
  case Reset
  then show ?thesis
    by (simp add: reset_def merge_state_def initialState_patch_def links_in_sync_def
        initialState_def)
next
  case (UpdateOutflows p)
  with assms show ?thesis
    by (simp add: updateOutflows_def store_defs links_in_sync_def merge_Outflows_def)
next
  case (UpdateCashFlow p)
  with assms show ?thesis
    by (simp add: updateCashFlow_def store_defs links_in_sync_def merge_CashFlow_def)
next
  case (UpdateEssentialDetails p)
  with assms show ?thesis
    by (simp add: updateEssentialDetails_def store_defs links_in_sync_def Let_def)
next
  case (UpdateLifestyleDetails p)
  with assms show ?thesis
    by (simp add: updateLifestyleDetails_def store_defs links_in_sync_def Let_def)
next
  case (UpdateInflows p)
  with assms show ?thesis
    by (simp add: updateInflows_def store_defs links_in_sync_def)
qed (use assms in \<open>simp_all add: links_in_sync_def store_defs setProfile_def
      updatePrimaryUser_def setSpouse_def addFamilyMember_def removeFamilyMember_def
      addGoal_def updateGoal_def removeGoal_def addRealEstate_def removeRealEstate_def
      addBankAccount_def removeBankAccount_def addInsurancePolicy_def
      removeInsurancePolicy_def updateLiquidCash_def updateAssumptions_def
      setAnalysisResults_def\<close>)

lemma run_keeps_links:
  "\<forall>a\<in>set as. \<not> writes_links a \<Longrightarrow> links_in_sync s \<Longrightarrow> links_in_sync (run as s)"
  by (induction as arbitrary: s) (simp_all add: step_keeps_links)

subsection \<open>The linkage is not an invariant of every action\<close>

text \<open>
  One call of \<^verbatim>\<open>updateOutflows({ linked_emis: 999 })\<close> on the fresh store leaves
  \<open>linked_emis = 999\<close> over an empty liabilities table.
\<close>

theorem updateOutflows_breaks_links:
  "linked_emis (outflows (cash_flow
       (run [UpdateOutflows (no_outflows\<lparr>p_linked_emis := Some 999\<rparr>)] initialState))) = 999
   \<and> liabilities (run [UpdateOutflows (no_outflows\<lparr>p_linked_emis := Some 999\<rparr>)] initialState) = []
   \<and> \<not> links_in_sync (run [UpdateOutflows (no_outflows\<lparr>p_linked_emis := Some 999\<rparr>)] initialState)"
  by (simp add: updateOutflows_def store_defs links_in_sync_def merge_Outflows_def
      no_outflows_def initialState_def)

text \<open>
  Claim C2, as the store has it.  In every state reached from the initial state by actions
  none of which carries a linked value in its argument, \<open>linked_emis\<close> is the sum of the
  liabilities' EMIs and \<open>linked_investments\<close> is the sum of the investments' monthly SIPs.
  The re-sync and the four table actions (add or remove an investment or a liability)
  establish both equalities from any state whatever.  \<^verbatim>\<open>updateOutflows\<close> stores whatever
  linked value its argument carries.
\<close>

theorem links_in_sync_reachable:
  "((\<forall>a\<in>set as. \<not> writes_links a) \<longrightarrow> links_in_sync (run as initialState))
   \<and> links_in_sync (recalculateLinkedValues s)
   \<and> links_in_sync (addLiability gen l s)
   \<and> links_in_sync (removeLiability i s)
   \<and> links_in_sync (addInvestment gen v s)
   \<and> links_in_sync (removeInvestment i s)
   \<and> linked_emis (outflows (cash_flow
        (updateOutflows (no_outflows\<lparr>p_linked_emis := Some x\<rparr>) s))) = x
   \<and> linked_investments (outflows (cash_flow
        (updateOutflows (no_outflows\<lparr>p_linked_investments := Some x\<rparr>) s))) = x"
proof -
  have "(\<forall>a\<in>set as. \<not> writes_links a) \<longrightarrow> links_in_sync (run as initialState)"
    using run_keeps_links initial_links by blast
  moreover have "links_in_sync (addLiability gen l s)" "links_in_sync (removeLiability i s)"
    "links_in_sync (addInvestment gen v s)" "links_in_sync (removeInvestment i s)"
    by (simp_all add: addLiability_def removeLiability_def addInvestment_def
        removeInvestment_def recalc_links)
  moreover have
    "linked_emis (outflows (cash_flow
        (updateOutflows (no_outflows\<lparr>p_linked_emis := Some x\<rparr>) s))) = x"
    "linked_investments (outflows (cash_flow
        (updateOutflows (no_outflows\<lparr>p_linked_investments := Some x\<rparr>) s))) = x"
    by (simp_all add: updateOutflows_def store_defs merge_Outflows_def no_outflows_def)
  ultimately show ?thesis
    using recalc_links by blast
qed

text \<open>
  The sample session adds two loans and one fund, edits the essential total and removes the
  first loan again; none of its actions carries a linked value.
\<close>

theorem links_in_sync_reachable_witness:
  "list_all (\<lambda>a. \<not> writes_links a) sample_actions
   \<and> links_in_sync (run sample_actions initialState)"
proof -
  have h: "list_all (\<lambda>a. \<not> writes_links a) sample_actions"
    by (simp add: sample_actions_def no_outflows_def)
  then have "\<forall>a\<in>set sample_actions. \<not> writes_links a"
    by (simp add: list_all_iff)
  with links_in_sync_reachable [of sample_actions] h show ?thesis
    by blast
qed

subsection \<open>The re-sync\<close>

text \<open>
  Claim C3.  After one call of \<^verbatim>\<open>recalculateLinkedValues\<close>, from any state, \<open>linked_emis\<close>
  is the sum of \<open>emi\<close> over the liabilities and \<open>linked_investments\<close> the sum of
  \<open>monthly_sip\<close> over the investments.  With two liabilities of EMI 35000 and 18000 the
  result is 53000 whatever stale value the field held.
\<close>

theorem recalculateLinkedValues_resyncs:
  "links_in_sync (recalculateLinkedValues s)
   \<and> liabilities (recalculateLinkedValues s) = liabilities s
   \<and> investments (assets (recalculateLinkedValues s)) = investments (assets s)
   \<and> linked_emis (outflows (cash_flow (recalculateLinkedValues
        (s\<lparr>liabilities := [l1\<lparr>emi := 35000\<rparr>, l2\<lparr>emi := 18000\<rparr>],
           cash_flow := (cash_flow s)\<lparr>outflows :=
             (outflows (cash_flow s))\<lparr>linked_emis := stale\<rparr>\<rparr>\<rparr>)))) = 53000"
proof -
  have "liabilities (recalculateLinkedValues s) = liabilities s"
    "investments (assets (recalculateLinkedValues s)) = investments (assets s)"
    by (simp_all add: recalculateLinkedValues_def store_defs Let_def)
  moreover have "linked_emis (outflows (cash_flow (recalculateLinkedValues
        (s\<lparr>liabilities := [l1\<lparr>emi := 35000\<rparr>, l2\<lparr>emi := 18000\<rparr>],
           cash_flow := (cash_flow s)\<lparr>outflows :=
             (outflows (cash_flow s))\<lparr>linked_emis := stale\<rparr>\<rparr>\<rparr>)))) = 53000"
    by (simp add: recalculateLinkedValues_def store_defs Let_def)
  ultimately show ?thesis
    using recalc_links by blast
qed

text \<open>
  Claim C9.  \<^verbatim>\<open>recalculateLinkedValues\<close> returns the state it was given with new values in
  \<open>linked_emis\<close> and \<open>linked_investments\<close> and nothing else touched: profile, goals,
  assets, liabilities, assumptions, analysis results, inflows, and the essential and
  lifestyle totals and the three itemised detail objects of the outflows are unchanged.
\<close>

theorem recalculateLinkedValues_frame:
  "user_profile (recalculateLinkedValues s) = user_profile s
   \<and> goals (recalculateLinkedValues s) = goals s
   \<and> assets (recalculateLinkedValues s) = assets s
   \<and> liabilities (recalculateLinkedValues s) = liabilities s
   \<and> assumptions (recalculateLinkedValues s) = assumptions s
   \<and> analysisResults (recalculateLinkedValues s) = analysisResults s
   \<and> inflows (cash_flow (recalculateLinkedValues s)) = inflows (cash_flow s)
   \<and> essential (outflows (cash_flow (recalculateLinkedValues s)))
       = essential (outflows (cash_flow s))
   \<and> lifestyle (outflows (cash_flow (recalculateLinkedValues s)))
       = lifestyle (outflows (cash_flow s))
   \<and> essential_details (outflows (cash_flow (recalculateLinkedValues s)))
       = essential_details (outflows (cash_flow s))
   \<and> lifestyle_details (outflows (cash_flow (recalculateLinkedValues s)))
       = lifestyle_details (outflows (cash_flow s))
   \<and> investment_details (outflows (cash_flow (recalculateLinkedValues s)))
       = investment_details (outflows (cash_flow s))
   \<and> recalculateLinkedValues s =
       s\<lparr>cash_flow := (cash_flow s)\<lparr>outflows := (outflows (cash_flow s))
          \<lparr>linked_emis := linked_emis (outflows (cash_flow (recalculateLinkedValues s))),
           linked_investments :=
             linked_investments (outflows (cash_flow (recalculateLinkedValues s)))\<rparr>\<rparr>\<rparr>"
  by (cases s) (simp add: recalculateLinkedValues_def store_defs Let_def)


section \<open>Proofs: the formulas\<close>

subsection \<open>Powers\<close>

lemma py_pow_pos: "0 < x \<Longrightarrow> py_pow x y = Inr (x powr y)"
proof -
  assume x: "0 < x"
  have "x powi \<lfloor>y\<rfloor> = x powr y" if "of_int \<lfloor>y\<rfloor> = y"
    using powr_real_of_int'[of x "\<lfloor>y\<rfloor>"] x that by simp
  with x show ?thesis by (simp add: py_pow_def)
qed

lemma py_pow_int: "x \<noteq> 0 \<or> 0 \<le> n \<Longrightarrow> py_pow x (of_int n) = Inr (x powi n)"
  by (auto simp: py_pow_def)

text \<open>
  A real rate computed from a return and an inflation rate that are Rates of the data
  model (both in \<open>[0, 1]\<close>) lies in \<open>[-1/2, 1]\<close>; in particular it is never \<open>-1\<close>.
\<close>

lemma real_rate_range:
  assumes "0 \<le> post" "post \<le> 1" "0 \<le> infl" "infl \<le> 1"
  shows "\<exists>r. real_rate post infl = Inr r \<and> - (1 / 2) \<le> r \<and> r \<le> 1"
proof -
  define q where "q = (1 + post) / (1 + infl)"
  have pos: "0 < 1 + infl" using assms by linarith
  have "q \<le> 2"
    unfolding q_def using assms pos by (simp add: field_simps)
  moreover have "1 / 2 \<le> q"
    unfolding q_def using assms pos by (simp add: field_simps)
  ultimately have "- (1 / 2) \<le> q - 1 \<and> q - 1 \<le> 1"
    by linarith
  moreover have "real_rate post infl = Inr (q - 1)"
    unfolding q_def using pos by (simp add: real_rate_def py_div_def)
  ultimately show ?thesis
    by blast
qed

lemma corpus_required_zero_base:
  "0 < n \<Longrightarrow> calculate_corpus_required M n (- 1) = Inl ZeroDivisionError"
  by (simp add: calculate_corpus_required_def py_pow_def)

subsection \<open>Dashboard ratios\<close>

text \<open>
  Claim C1.  On a cash-flow sheet whose total inflow is positive, the savings rate, EMI
  burden, investment rate, essential-expense and lifestyle-expense percentages, each the
  corresponding amount over the total inflow times 100, add up to exactly 100, hence to
  100 within 0.01, whatever the sign of the leftover.
\<close>

theorem ratios_sum_to_100:
  assumes "0 < TotalInflow c"
  shows "SavingsRate c + EMIBurden c + InvestmentRate c + EssentialExpensePct c
           + LifestyleExpensePct c = 100
         \<and> \<bar>SavingsRate c + EMIBurden c + InvestmentRate c + EssentialExpensePct c
             + LifestyleExpensePct c - 100\<bar> \<le> 1 / 100"
proof -
  have "SavingsRate c + EMIBurden c + InvestmentRate c + EssentialExpensePct c
           + LifestyleExpensePct c
        = ((Leftover c + TotalEMIs c + TotalInvestments c + TotalEssential c + TotalLifestyle c)
            / TotalInflow c) * 100"
    by (simp add: SavingsRate_def EMIBurden_def InvestmentRate_def EssentialExpensePct_def
        LifestyleExpensePct_def add_divide_distrib distrib_right)
  also have "Leftover c + TotalEMIs c + TotalInvestments c + TotalEssential c + TotalLifestyle c
        = TotalInflow c"
    by (simp add: Leftover_def TotalOutflows_def)
  finally have "SavingsRate c + EMIBurden c + InvestmentRate c + EssentialExpensePct c
           + LifestyleExpensePct c = 100"
    using assms by simp
  then show ?thesis by simp
qed

text \<open>The overspent household: inflow 100000, outflows 135000, leftover -35000.\<close>

theorem ratios_sum_to_100_witness:
  "0 < TotalInflow overspent_sheet
   \<and> Leftover overspent_sheet = - 35000
   \<and> SavingsRate overspent_sheet = - 35
   \<and> SavingsRate overspent_sheet + EMIBurden overspent_sheet + InvestmentRate overspent_sheet
       + EssentialExpensePct overspent_sheet + LifestyleExpensePct overspent_sheet = 100"
proof -
  have inflow: "TotalInflow overspent_sheet = 100000"
    by (simp add: TotalInflow_def overspent_sheet_def)
  have "TotalOutflows overspent_sheet = 135000"
    by (simp add: TotalOutflows_def TotalEssential_def TotalLifestyle_def TotalEMIs_def
        TotalInvestments_def overspent_sheet_def home_loan_def)
  with inflow have left: "Leftover overspent_sheet = - 35000"
    by (simp add: Leftover_def)
  from inflow left have "SavingsRate overspent_sheet = - 35"
    by (simp add: SavingsRate_def)
  with inflow left ratios_sum_to_100 [of overspent_sheet] show ?thesis
    by simp
qed

subsection \<open>Corpus required\<close>

text \<open>
  Claim C4.  With a real rate of 0 the corpus required is the monthly expense times the
  number of pension months.  With a real rate \<open>r\<close> other than 0 it is
  \<open>M * (1 - (1 + r)^(-n)) / r\<close>; the power is defined unless \<open>r = -1\<close> with \<open>n > 0\<close>,
  which no real rate derived from Rates of the data model reaches.
\<close>

theorem corpus_required_formula:
  "calculate_corpus_required M n 0 = Inr (M * of_int n)
   \<and> (r \<noteq> 0 \<and> (r \<noteq> - 1 \<or> n \<le> 0) \<longrightarrow>
        calculate_corpus_required M n r = Inr (M * (1 - (1 + r) powi (- n)) / r))"
proof -
  have "py_pow (1 + r) (of_int (- n)) = Inr ((1 + r) powi (- n))" if "r \<noteq> - 1 \<or> n \<le> 0"
    using that by (intro py_pow_int) auto
  then show ?thesis
    by (simp add: calculate_corpus_required_def py_div_def)
qed

theorem corpus_required_formula_witness:
  "(1 / 4 :: real) \<noteq> 0 \<and> (1 / 4 :: real) \<noteq> - 1
   \<and> calculate_corpus_required 1000 2 (1 / 4) = Inr 1440
   \<and> calculate_corpus_required 1000 2 0 = Inr 2000"
proof -
  have "(1 - (1 + 1 / 4) powi (- 2)) / (1 / 4) = (36 / 25 :: real)"
    by (simp add: power_int_minus power2_eq_square)
  with corpus_required_formula [of 1000 2 "1 / 4"] show ?thesis
    by simp
qed

subsection \<open>Extra SIP required\<close>

lemma extra_sip_pos_rate:
  assumes "0 < G" "0 < n" "0 < annual_roi / 12"
  shows "calculate_extra_sip_required G n annual_roi
          = Inr ((G * (annual_roi / 12))
                  / (((1 + annual_roi / 12) ^ nat n - 1) * (1 + annual_roi / 12)))"
proof -
  let ?r = "annual_roi / 12"
  have pw: "py_pow (1 + ?r) (of_int n) = Inr ((1 + ?r) ^ nat n)"
    using assms py_pow_int[of "1 + ?r" n] by (simp add: power_int_def)
  have "1 < (1 + ?r) ^ nat n"
    using assms by (intro one_less_power) auto
  then have "0 < (1 + ?r) ^ nat n - 1"
    by linarith
  moreover have "0 < 1 + ?r"
    using assms by linarith
  ultimately have "0 < ((1 + ?r) ^ nat n - 1) * (1 + ?r)"
    by (rule mult_pos_pos)
  then have nz: "((1 + ?r) ^ nat n - 1) * (1 + ?r) \<noteq> 0"
    by linarith
  have "calculate_extra_sip_required G n annual_roi
          = py_div (G * ?r) (((1 + ?r) ^ nat n - 1) * (1 + ?r))"
    using assms unfolding calculate_extra_sip_required_def Let_def pw by simp
  with nz show ?thesis
    unfolding py_div_def by simp
qed

text \<open>
  Claim C5.  The extra SIP is 0 whenever the gap or the number of months to retirement is
  at most 0.  Otherwise, with \<open>r\<close> the annual return over 12, it is
  \<open>(G * r) / (((1 + r)^n - 1) * (1 + r))\<close> when \<open>r > 0\<close> and \<open>G / n\<close> when \<open>r = 0\<close>;
  neither division fails.
\<close>

theorem extra_sip_required_formula:
  "(G \<le> 0 \<or> n \<le> 0 \<longrightarrow> calculate_extra_sip_required G n annual_roi = Inr 0)
   \<and> (0 < G \<and> 0 < n \<and> 0 < annual_roi / 12 \<longrightarrow>
        calculate_extra_sip_required G n annual_roi
          = Inr ((G * (annual_roi / 12))
                  / (((1 + annual_roi / 12) ^ nat n - 1) * (1 + annual_roi / 12))))
   \<and> (0 < G \<and> 0 < n \<and> annual_roi / 12 = 0 \<longrightarrow>
        calculate_extra_sip_required G n annual_roi = Inr (G / of_int n))"
proof (intro conjI impI)
  assume "G \<le> 0 \<or> n \<le> 0"
  then show "calculate_extra_sip_required G n annual_roi = Inr 0"
    by (auto simp: calculate_extra_sip_required_def)
next
  assume "0 < G \<and> 0 < n \<and> 0 < annual_roi / 12"
  then show "calculate_extra_sip_required G n annual_roi
          = Inr ((G * (annual_roi / 12))
                  / (((1 + annual_roi / 12) ^ nat n - 1) * (1 + annual_roi / 12)))"
    using extra_sip_pos_rate by blast
next
  assume "0 < G \<and> 0 < n \<and> annual_roi / 12 = 0"
  then show "calculate_extra_sip_required G n annual_roi = Inr (G / of_int n)"
    by (simp add: calculate_extra_sip_required_def py_div_def)
qed

text \<open>
  A gap of 20301 over two months at 12 percent a year (1 percent a month) needs
  10000 a month; without return it needs 10150.5; a surplus needs nothing.
\<close>

theorem extra_sip_required_formula_witness:
  "calculate_extra_sip_required 20301 2 (12 / 100) = Inr 10000
   \<and> calculate_extra_sip_required 20301 2 0 = Inr (20301 / 2)
   \<and> calculate_extra_sip_required (- 500) 2 (12 / 100) = Inr 0
   \<and> calculate_extra_sip_required 20301 0 (12 / 100) = Inr 0"
proof -
  have "(20301 * (12 / 100 / 12)) / (((1 + 12 / 100 / 12) ^ nat 2 - 1) * (1 + 12 / 100 / 12))
          = (10000 :: real)"
    by (simp add: power2_eq_square)
  with extra_sip_required_formula [of 20301 2 "12 / 100"]
    extra_sip_required_formula [of 20301 2 0]
    extra_sip_required_formula [of "- 500" 2 "12 / 100"]
    extra_sip_required_formula [of 20301 0 "12 / 100"]
  show ?thesis by simp
qed

subsection \<open>Age\<close>

text \<open>
  Born 1986-03-15 (day 5917, 511228800000 ms), evaluated on 2026-01-17 (day 20470,
  1768608000000 ms): 14553 days, about 39.84 years.  The form's age is 39.
\<close>

theorem calculateAge_floors_whole_years:
  "calculateAge (\<lambda>d. 511228800000) 1768608000000 ''1986-03-15'' = Some 39
   \<and> calculate_age 20470 5917 = 14553 / 365.25
   \<and> (39 :: real) \<noteq> 14553 / 365.25"
  by (simp add: calculateAge_def calculate_age_def)

text \<open>
  Claim C6, as the code has it.  The reference \<^verbatim>\<open>calculate_age\<close> returns the days lived
  over 365.25, a fraction that grows by \<open>1 / 365.25\<close> with every day.  The
  family-details form's \<^verbatim>\<open>calculateAge\<close> returns no age for an empty birth date and
  otherwise the elapsed milliseconds over a 365.25-day year rounded down to whole years.
\<close>

theorem age_conventions:
  "calculate_age today dob = of_int (today - dob) / 365.25
   \<and> calculate_age (today + 1) dob - calculate_age today dob = 1 / 365.25
   \<and> calculateAge date_ms now_ms [] = None
   \<and> (birth \<noteq> [] \<longrightarrow>
        calculateAge date_ms now_ms birth = Some \<lfloor>(now_ms - date_ms birth) / 31557600000\<rfloor>
        \<and> of_int (the (calculateAge date_ms now_ms birth))
             \<le> (now_ms - date_ms birth) / 31557600000
        \<and> (now_ms - date_ms birth) / 31557600000
             < of_int (the (calculateAge date_ms now_ms birth)) + 1)"
proof (intro conjI impI)
  show "calculate_age today dob = of_int (today - dob) / 365.25"
    by (simp add: calculate_age_def)
  show "calculate_age (today + 1) dob - calculate_age today dob = 1 / 365.25"
    by (simp add: calculate_age_def field_simps)
  show "calculateAge date_ms now_ms [] = None"
    by (simp add: calculateAge_def)
next
  assume "birth \<noteq> []"
  then show fl: "calculateAge date_ms now_ms birth
                  = Some \<lfloor>(now_ms - date_ms birth) / 31557600000\<rfloor>"
    by (simp add: calculateAge_def)
  show "of_int (the (calculateAge date_ms now_ms birth))
          \<le> (now_ms - date_ms birth) / 31557600000"
    unfolding fl option.sel by (rule of_int_floor_le)
  show "(now_ms - date_ms birth) / 31557600000
          < of_int (the (calculateAge date_ms now_ms birth)) + 1"
    unfolding fl option.sel by (rule real_of_int_floor_add_one_gt)
qed

text \<open>Born 2000-01-01 (946684800000 ms), asked at noon on 2026-01-17: 26 whole years.\<close>

theorem age_conventions_witness:
  "''2000-01-01'' \<noteq> []
   \<and> calculateAge (\<lambda>d. 946684800000) 1768651200000 ''2000-01-01'' = Some 26"
proof -
  have "\<lfloor>(1768651200000 - 946684800000) / (31557600000 :: real)\<rfloor> = 26"
    by (simp add: floor_eq_iff)
  with age_conventions [of _ _ "\<lambda>d. 946684800000" 1768651200000 "''2000-01-01''"]
  show ?thesis by simp
qed

subsection \<open>A date-based goal on the evaluation day\<close>

text \<open>
  What the formulas in the requirements say about a DATE goal whose target date is the
  evaluation date: it resolves to 0 years, it does not pass the logical validation
  \<^verbatim>\<open>TargetDate > TODAY\<close>, and its future cost is its current cost.
\<close>

lemma date_goal_on_evaluation_day:
  "years_to_goal_date today today = 0
   \<and> \<not> goal_date_valid today today
   \<and> calculate_future_cost cost rate (years_to_goal_date today today) = Inr cost
   \<and> goal_date_valid today target = (0 < years_to_goal_date today target)"
  by (auto simp: years_to_goal_date_def goal_date_valid_def calculate_future_cost_def
      py_pow_def field_simps)

subsection \<open>Future cost\<close>

text \<open>
  Claim C8.  The future cost is \<open>cost * (1 + rate)^years\<close> for every cost, every year
  count and every rate above \<open>-1\<close> (a Rate of the data model lies in \<open>[0, 1]\<close>).  The worked
  example, 1000000 at 6 percent over 12 years, has integer part 2012196.
\<close>

theorem future_cost_formula:
  "(- 1 < rate \<longrightarrow>
      calculate_future_cost cost rate years = Inr (cost * (1 + rate) powr years))
   \<and> (\<exists>v. calculate_future_cost 1000000 (6 / 100) 12 = Inr v
          \<and> 2012196 \<le> v \<and> v < 2012197 \<and> \<lfloor>v\<rfloor> = 2012196)"
proof -
  have "calculate_future_cost 1000000 (6 / 100) 12 = Inr (1000000 * (106 / 100) ^ 12)"
    by (simp add: calculate_future_cost_def py_pow_def)
  moreover have "(2012196::real) \<le> 1000000 * (106 / 100) ^ 12"
    by (simp add: power_divide)
  moreover have "1000000 * (106 / 100) ^ 12 < (2012197::real)"
    by (simp add: power_divide)
  ultimately have "\<exists>v. calculate_future_cost 1000000 (6 / 100) 12 = Inr v
          \<and> 2012196 \<le> v \<and> v < 2012197 \<and> \<lfloor>v\<rfloor> = 2012196"
    by (simp add: floor_eq_iff)
  then show ?thesis
    by (simp add: calculate_future_cost_def py_pow_pos)
qed

theorem future_cost_formula_witness:
  "(- 1 :: real) < 1 / 2
   \<and> calculate_future_cost 400 (1 / 2) 2 = Inr (400 * (1 + 1 / 2) powr 2)
   \<and> calculate_future_cost 400 (1 / 2) 2 = Inr 900"
proof -
  have "400 * (1 + 1 / 2) powr 2 = (900 :: real)"
    by (simp add: power2_eq_square)
  with future_cost_formula [of "1 / 2" 400 2] show ?thesis
    by simp
qed

end
